theory Spec2Isabelle
  imports Main "HOL-Library.Sublist"
begin

section \<open>The tap's configuration and stream discovery (tap\_file/tap.py)\<close>

subsection \<open>Configuration values\<close>

text \<open>
  The tap's configuration is a dictionary from setting names to JSON values. The types
  that \<open>config_jsonschema\<close> declares for its properties are strings (\<open>StringType\<close>,
  \<open>RegexType\<close>) and booleans (\<open>BooleanType\<close>), and a property that is not required also
  admits null; these are the values a setting can hold.
\<close>

datatype cval = CStr string | CBool bool | CNone

text \<open>
  What an f-string prints for a configuration value (Python's \<open>str\<close>).
\<close>

fun py_str :: "cval \<Rightarrow> string" where
  "py_str (CStr s) = s"
| "py_str (CBool True) = ''True''"
| "py_str (CBool False) = ''False''"
| "py_str CNone = ''None''"

type_synonym config = "string \<rightharpoonup> cval"

subsection \<open>The declared settings: \<open>config_jsonschema\<close>\<close>

datatype json_type = StringType | RegexType | BooleanType

text \<open>
  One \<open>th.Property(...)\<close> entry. An argument the source leaves out has the library's
  default: \<open>required=False\<close>, and no \<open>default\<close> and no \<open>allowed_values\<close> (both
  \<open>None\<close>). The description texts, which no operation reads, are left out.
\<close>

record property =
  prop_name :: string
  wrapped :: json_type
  required :: bool
  default_value :: "cval option"
  allowed_values :: "string list option"

text \<open>
  The two credential settings take their defaults from the process environment
  (\<open>os.getenv\<close>, which gives \<open>None\<close> for an unset variable), so the list depends on it.
\<close>

definition config_jsonschema :: "(string \<rightharpoonup> string) \<Rightarrow> property list" where
  "config_jsonschema getenv =
   [ \<lparr> prop_name = ''stream_name'', wrapped = StringType, required = False,
       default_value = Some (CStr ''file''), allowed_values = None \<rparr>,
     \<lparr> prop_name = ''protocol'', wrapped = StringType, required = True,
       default_value = None, allowed_values = Some [''file'', ''s3''] \<rparr>,
     \<lparr> prop_name = ''filepath'', wrapped = StringType, required = True,
       default_value = None, allowed_values = None \<rparr>,
     \<lparr> prop_name = ''file_regex'', wrapped = RegexType, required = False,
       default_value = None, allowed_values = None \<rparr>,
     \<lparr> prop_name = ''file_type'', wrapped = RegexType, required = False,
       default_value = Some (CStr ''delimited''), allowed_values = None \<rparr>,
     \<lparr> prop_name = ''compression'', wrapped = StringType, required = False,
       default_value = Some (CStr ''detect''),
       allowed_values = Some [''none'', ''zip'', ''bz2'', ''gzip'', ''lzma'', ''xz'', ''detect''] \<rparr>,
     \<lparr> prop_name = ''delimiter'', wrapped = StringType, required = False,
       default_value = Some (CStr ''detect''), allowed_values = None \<rparr>,
     \<lparr> prop_name = ''quote_character'', wrapped = StringType, required = False,
       default_value = Some (CStr [CHR 0x22]), allowed_values = None \<rparr>,
     \<lparr> prop_name = ''jsonl_sampling_strategy'', wrapped = StringType, required = False,
       default_value = Some (CStr ''first''), allowed_values = Some [''first'', ''all''] \<rparr>,
     \<lparr> prop_name = ''jsonl_type_coercion_strategy'', wrapped = StringType, required = False,
       default_value = Some (CStr ''any''),
       allowed_values = Some [''any'', ''string'', ''blob''] \<rparr>,
     \<lparr> prop_name = ''s3_anonymous_connection'', wrapped = BooleanType, required = False,
       default_value = Some (CBool False), allowed_values = None \<rparr>,
     \<lparr> prop_name = ''AWS_ACCESS_KEY_ID'', wrapped = StringType, required = False,
       default_value = map_option CStr (getenv ''AWS_ACCESS_KEY_ID''),
       allowed_values = None \<rparr>,
     \<lparr> prop_name = ''AWS_SECRET_ACCESS_KEY'', wrapped = StringType, required = False,
       default_value = map_option CStr (getenv ''AWS_SECRET_ACCESS_KEY''),
       allowed_values = None \<rparr>,
     \<lparr> prop_name = ''caching_strategy'', wrapped = StringType, required = False,
       default_value = Some (CStr ''once''),
       allowed_values = Some [''none'', ''once'', ''persistent''] \<rparr> ]"

text \<open>
  Reading the schema: the entry declared under a name, the default it carries, the
  values it is restricted to, and the names of the required entries, in order.
\<close>

definition schema_property :: "property list \<Rightarrow> string \<Rightarrow> property option" where
  "schema_property ps k = find (\<lambda>p. prop_name p = k) ps"

definition schema_default :: "property list \<Rightarrow> string \<Rightarrow> cval option" where
  "schema_default ps k =
     (case schema_property ps k of None \<Rightarrow> None | Some p \<Rightarrow> default_value p)"

definition schema_allowed_values :: "property list \<Rightarrow> string \<Rightarrow> string list option" where
  "schema_allowed_values ps k =
     (case schema_property ps k of None \<Rightarrow> None | Some p \<Rightarrow> allowed_values p)"

definition schema_required :: "property list \<Rightarrow> string list" where
  "schema_required ps = map prop_name (filter required ps)"

subsection \<open>Stream discovery\<close>

text \<open>
  The exceptions \<open>discover_streams\<close> can leave with, each with its message (for
  \<open>KeyError\<close>, the missing key). A subscript \<open>self.config[k]\<close> on a key that the
  dictionary lacks raises \<open>KeyError\<close>.
\<close>

datatype exn = KeyError string | NotImplementedError string | ValueError string

record tap_file =
  config :: config

definition config_item :: "tap_file \<Rightarrow> string \<Rightarrow> exn + cval" where
  "config_item self k = (case config self k of None \<Rightarrow> Inl (KeyError k) | Some v \<Rightarrow> Inr v)"

text \<open>
  The two stream classes live in the \<open>streams\<close> module; \<open>discover_streams\<close> only
  constructs them, from the tap and the stream's name. A stream is represented by its
  class and these two constructor arguments.
\<close>

datatype stream = DelimitedStream tap_file cval | JSONLStream tap_file cval

fun stream_name :: "stream \<Rightarrow> cval" where
  "stream_name (DelimitedStream t n) = n"
| "stream_name (JSONLStream t n) = n"

definition discover_streams :: "tap_file \<Rightarrow> exn + stream list" where
  "discover_streams self =
     (case config_item self ''stream_name'' of
        Inl e \<Rightarrow> Inl e
      | Inr name \<Rightarrow>
         (case config_item self ''file_type'' of
            Inl e \<Rightarrow> Inl e
          | Inr file_type \<Rightarrow>
              if file_type = CStr ''delimited'' then Inr [DelimitedStream self name]
              else if file_type = CStr ''jsonl'' then Inr [JSONLStream self name]
              else if file_type = CStr ''avro'' then
                Inl (NotImplementedError ''avro has not yet been implemented.'')
              else if file_type \<in> set [CStr ''csv'', CStr ''tsv''] then
                Inl (ValueError (py_str file_type
                       @ '' is not a valid 'file_type'. Did you mean 'delimited'?''))
              else Inl (ValueError (py_str file_type @ '' is not a valid 'file_type'.''))))"

section \<open>The file-ingestion pipeline behind the streams\<close>

text \<open>
  The stream classes that \<open>discover_streams\<close> constructs, and the file handling they
  share, are defined in the modules \<open>tap_file/streams.py\<close> and \<open>tap_file/client.py\<close>,
  which are not among the sources at hand: \<open>tap.py\<close> only imports them. The operations
  of this section are therefore modelled from the specification, component by component.
\<close>

subsection \<open>Failures\<close>

text \<open>
  Modelled from the spec: the failure kinds of the error taxonomy (section 7) that the
  operations below can end with; the code that raises them is in the missing modules.
  \<open>NotImplemented\<close> is the \<open>NotImplementedError\<close>-class signal of a declared but
  unsupported selection.
\<close>

datatype failure =
  DecompressionError | AmbiguousArchiveError | UnsupportedDelimiterError | NotImplemented

subsection \<open>Filename extensions\<close>

text \<open>
  Modelled from the spec: the filename extension that the \<open>detect\<close> strategies inspect
  (sections 4.2 and 4.3; the inspecting code is in the missing stream classes). The
  extension is the end of the name from its last dot on, and is empty for a name without
  a dot.
\<close>

definition extension :: "string \<Rightarrow> string" where
  "extension fn =
     (if CHR ''.'' \<in> set fn
      then CHR ''.'' # rev (takeWhile (\<lambda>c. c \<noteq> CHR ''.'') (rev fn))
      else [])"

subsection \<open>CompressionResolver\<close>

text \<open>
  Modelled from the spec: the named codecs and the compression strategies of section 4.2
  (\<open>none\<close>, a named codec, \<open>detect\<close>), which are also the allowed values of the
  \<open>compression\<close> setting; the resolver itself is in the missing modules.
\<close>

datatype codec = Zip | Bz2 | Gzip | Lzma | Xz

datatype compression = NoCompression | Named codec | Detect

text \<open>
  Modelled from the spec: the extension-to-codec table of the \<open>detect\<close> strategy
  (missing code: the resolver's detection step). \<open>None\<close> is pass-through, for an
  extension the table does not list.
\<close>

definition detect_codec :: "string \<Rightarrow> codec option" where
  "detect_codec fn =
     (let e = extension fn in
      if e = ''.gz'' then Some Gzip
      else if e = ''.zip'' then Some Zip
      else if e = ''.bz2'' then Some Bz2
      else if e = ''.xz'' then Some Xz
      else if e = ''.lzma'' then Some Lzma
      else None)"

text \<open>
  Modelled from the spec: what a raw byte stream holds, as far as decoding is concerned
  (the codecs themselves are library code behind the missing resolver): plain bytes, a
  payload packed by a stream codec, or a zip archive of named members.
\<close>

datatype content = Plain string | Encoded codec content | Archive "(string \<times> content) list"

text \<open>
  Modelled from the spec: applying the selected decoder (section 4.2; missing code: the
  resolver's decoding step). No decoder passes the stream through. A named decoder
  fails with \<open>DecompressionError\<close> on bytes that are not in its codec. The zip decoder
  accepts an archive of exactly one member, whose own name then selects the decoding of
  that member, and fails with \<open>AmbiguousArchiveError\<close> on several members. The spec
  leaves the archive without members open; its outcome is the parameter \<open>on_empty\<close>.
  The result pairs the decoded stream with the name of the file it is read as.
\<close>

fun decompress ::
  "failure \<Rightarrow> codec option \<Rightarrow> string \<Rightarrow> content \<Rightarrow> failure + string \<times> content" where
  "decompress on_empty None fn raw = Inr (fn, raw)"
| "decompress on_empty (Some c) fn (Plain b) = Inl DecompressionError"
| "decompress on_empty (Some c) fn (Encoded c' x) =
     (if c \<noteq> Zip \<and> c = c' then Inr (fn, x) else Inl DecompressionError)"
| "decompress on_empty (Some c) fn (Archive ms) =
     (if c \<noteq> Zip then Inl DecompressionError
      else case ms of
             [] \<Rightarrow> Inl on_empty
           | [(n, x)] \<Rightarrow> decompress on_empty (detect_codec n) n x
           | _ \<Rightarrow> Inl AmbiguousArchiveError)"

text \<open>
  Modelled from the spec: the resolver's contract
  \<open>resolve(filename, configured_strategy, raw_stream)\<close> of section 4.2 (missing code:
  the compression handling of the stream classes): \<open>none\<close> selects no decoder, a named
  codec selects its decoder, \<open>detect\<close> selects by the filename's extension.
\<close>

definition resolve ::
  "failure \<Rightarrow> compression \<Rightarrow> string \<Rightarrow> content \<Rightarrow> failure + string \<times> content" where
  "resolve on_empty strategy fn raw =
     decompress on_empty
       (case strategy of
          NoCompression \<Rightarrow> None
        | Named c \<Rightarrow> Some c
        | Detect \<Rightarrow> detect_codec fn)
       fn raw"

subsection \<open>Delimiter resolution\<close>

text \<open>
  Modelled from the spec: delimiter resolution of the delimited format (section 4.3;
  missing code: \<open>DelimitedStream\<close>). The first argument is the \<open>delimiter\<close> setting: the
  special value \<open>detect\<close>, or the separator to use for every file.
\<close>

definition resolve_delimiter :: "string \<Rightarrow> string \<Rightarrow> failure + string" where
  "resolve_delimiter delimiter fn =
     (if delimiter = ''detect''
      then (let e = extension fn in
            if e = ''.csv'' then Inr '',''
            else if e = ''.tsv'' then Inr [CHR 0x09]
            else Inl UnsupportedDelimiterError)
      else Inr delimiter)"

subsection \<open>StorageSource and StreamPipeline\<close>

text \<open>
  Modelled from the spec: a file entry of section 3, with its logical path and the bytes
  that opening it gives (missing code: the file listing of the stream base class).
\<close>

record file_entry =
  path :: string
  bytes :: content

text \<open>
  Modelled from the spec: \<open>list(prefix, regex)\<close> of section 4.1 (missing code: the
  stream base class's file enumeration): the entries of the store under the configured
  path that match the configured regex, in the store's order. The regex engine is a
  library; the compiled \<open>file_regex\<close> is taken as a predicate on paths.
\<close>

definition list_entries :: "(string \<Rightarrow> bool) \<Rightarrow> string \<Rightarrow> file_entry list \<Rightarrow> file_entry list" where
  "list_entries file_regex filepath store =
     filter (\<lambda>e. prefix filepath (path e) \<and> file_regex (path e)) store"

text \<open>
  Modelled from the spec: the per-invocation control flow of section 4.6 (missing code:
  the record generator of the stream classes). Files are read one after the other;
  \<open>read\<close> stands for opening, decompressing and parsing one entry, and gives the records
  it emitted and the failure that stopped it, if any. A failure aborts the remaining
  files; the records emitted before it stay emitted.
\<close>

fun emit_files ::
  "(file_entry \<Rightarrow> 'r list \<times> failure option) \<Rightarrow> file_entry list \<Rightarrow> 'r list \<times> failure option" where
  "emit_files read [] = ([], None)"
| "emit_files read (e # es) =
     (case read e of
        (rs, Some err) \<Rightarrow> (rs, Some err)
      | (rs, None) \<Rightarrow> (case emit_files read es of (rs', r) \<Rightarrow> (rs @ rs', r)))"

text \<open>
  Modelled from the spec: the pipeline of section 4.6, listing and then the per-file
  loop (missing code: as for \<open>emit_files\<close>).
\<close>

definition stream_pipeline ::
  "(file_entry \<Rightarrow> 'r list \<times> failure option) \<Rightarrow> (string \<Rightarrow> bool) \<Rightarrow> string \<Rightarrow> file_entry list
     \<Rightarrow> 'r list \<times> failure option" where
  "stream_pipeline read file_regex filepath store =
     emit_files read (list_entries file_regex filepath store)"

subsection \<open>JSON Lines strategies\<close>

text \<open>
  Modelled from the spec: the sampling and type-coercion strategies of section 4.4, which
  are also the allowed values of the two \<open>jsonl\<close> settings (missing code:
  \<open>JSONLStream\<close>), and the field types that JSON itself implies.
\<close>

datatype sampling = SampleFirst | SampleAll

datatype coercion = CoerceAny | CoerceString | CoerceBlob

datatype field_type = TString | TNumber | TBoolean | TNull | TObject | TArray

text \<open>
  Modelled from the spec: schema inference of the JSON Lines format (section 4.4; missing
  code: \<open>JSONLStream\<close>). Under \<open>first\<close> the first record gives the field names; \<open>any\<close>
  gives each field the type its JSON value has, \<open>string\<close> makes every field a string.
  \<open>all\<close> and \<open>blob\<close> are declared but unsupported. JSON values come from a library
  parser; \<open>kind\<close> tells the JSON type of a value.
\<close>

definition jsonl_schema ::
  "('v \<Rightarrow> field_type) \<Rightarrow> sampling \<Rightarrow> coercion \<Rightarrow> (string \<times> 'v) list
     \<Rightarrow> failure + (string \<times> field_type) list" where
  "jsonl_schema kind s c first_record =
     (case s of
        SampleAll \<Rightarrow> Inl NotImplemented
      | SampleFirst \<Rightarrow>
          (case c of
             CoerceBlob \<Rightarrow> Inl NotImplemented
           | CoerceAny \<Rightarrow> Inr (map (\<lambda>(k, v). (k, kind v)) first_record)
           | CoerceString \<Rightarrow> Inr (map (\<lambda>(k, v). (k, TString)) first_record)))"

text \<open>
  Modelled from the spec: turning one parsed line into a record (section 4.4; missing
  code: \<open>JSONLStream\<close>). \<open>any\<close> delivers the values as they are, \<open>string\<close> delivers
  each value's string representation, which \<open>to_string\<close> computes.
\<close>

definition jsonl_record ::
  "('v \<Rightarrow> 'v) \<Rightarrow> sampling \<Rightarrow> coercion \<Rightarrow> (string \<times> 'v) list \<Rightarrow> failure + (string \<times> 'v) list" where
  "jsonl_record to_string s c line =
     (case s of
        SampleAll \<Rightarrow> Inl NotImplemented
      | SampleFirst \<Rightarrow>
          (case c of
             CoerceBlob \<Rightarrow> Inl NotImplemented
           | CoerceAny \<Rightarrow> Inr line
           | CoerceString \<Rightarrow> Inr (map (\<lambda>(k, v). (k, to_string v)) line)))"

section \<open>Stream discovery: results\<close>

text \<open>
  C1. A configuration whose \<open>file_type\<close> is \<open>csv\<close> makes \<open>discover_streams\<close> raise
  \<open>ValueError\<close>; the message names \<open>delimited\<close> as the intended value, and no stream is
  returned. The stream name, which the function reads first, is configured (the schema
  gives it a default).
\<close>

theorem discover_streams_csv:
  assumes "config self ''stream_name'' = Some n"
    and "config self ''file_type'' = Some (CStr ''csv'')"
  shows "discover_streams self =
           Inl (ValueError ''csv is not a valid 'file_type'. Did you mean 'delimited'?'')"
  using assms by (simp add: discover_streams_def config_item_def)

theorem discover_streams_csv_witness:
  "discover_streams \<lparr> config = [''stream_name'' \<mapsto> CStr ''file'', ''file_type'' \<mapsto> CStr ''csv''] \<rparr>
     = Inl (ValueError ''csv is not a valid 'file_type'. Did you mean 'delimited'?'')"
  using discover_streams_csv
          [of "\<lparr> config = [''stream_name'' \<mapsto> CStr ''file'', ''file_type'' \<mapsto> CStr ''csv''] \<rparr>"
              "CStr ''file''"]
  by simp

text \<open>
  C2. A configuration whose \<open>file_type\<close> is \<open>avro\<close> makes \<open>discover_streams\<close> raise
  \<open>NotImplementedError\<close>. The function's only input is the tap and its configuration,
  and on this path no stream object is constructed, so the failure precedes any access to
  a file; the result is an exception, never a list of streams.
\<close>

theorem discover_streams_avro:
  assumes "config self ''stream_name'' = Some n"
    and "config self ''file_type'' = Some (CStr ''avro'')"
  shows "discover_streams self = Inl (NotImplementedError ''avro has not yet been implemented.'')
         \<and> (\<forall>ss. discover_streams self \<noteq> Inr ss)"
  using assms by (simp add: discover_streams_def config_item_def)

theorem discover_streams_avro_witness:
  "discover_streams \<lparr> config = [''stream_name'' \<mapsto> CStr ''file'', ''file_type'' \<mapsto> CStr ''avro''] \<rparr>
     = Inl (NotImplementedError ''avro has not yet been implemented.'')"
  using discover_streams_avro
          [of "\<lparr> config = [''stream_name'' \<mapsto> CStr ''file'', ''file_type'' \<mapsto> CStr ''avro''] \<rparr>"
              "CStr ''file''"]
  by simp

text \<open>
  C3. For every configuration with stream name \<open>n\<close>: when \<open>file_type\<close> is
  \<open>delimited\<close>, \<open>discover_streams\<close> returns exactly one stream, a \<open>DelimitedStream\<close>;
  when it is \<open>jsonl\<close>, exactly one stream, a \<open>JSONLStream\<close>; and in both cases the
  stream is constructed with the name \<open>n\<close>.
\<close>

theorem discover_streams_supported:
  assumes "config self ''stream_name'' = Some n"
  shows "(config self ''file_type'' = Some (CStr ''delimited'') \<longrightarrow>
            discover_streams self = Inr [DelimitedStream self n])
       \<and> (config self ''file_type'' = Some (CStr ''jsonl'') \<longrightarrow>
            discover_streams self = Inr [JSONLStream self n])
       \<and> stream_name (DelimitedStream self n) = n
       \<and> stream_name (JSONLStream self n) = n"
  using assms by (simp add: discover_streams_def config_item_def)

theorem discover_streams_supported_witness:
  "discover_streams \<lparr> config = [''stream_name'' \<mapsto> CStr ''orders'', ''file_type'' \<mapsto> CStr ''delimited''] \<rparr>
     = Inr [DelimitedStream
             \<lparr> config = [''stream_name'' \<mapsto> CStr ''orders'', ''file_type'' \<mapsto> CStr ''delimited''] \<rparr>
             (CStr ''orders'')]
   \<and> discover_streams \<lparr> config = [''stream_name'' \<mapsto> CStr ''orders'', ''file_type'' \<mapsto> CStr ''jsonl''] \<rparr>
     = Inr [JSONLStream
             \<lparr> config = [''stream_name'' \<mapsto> CStr ''orders'', ''file_type'' \<mapsto> CStr ''jsonl''] \<rparr>
             (CStr ''orders'')]"
  using discover_streams_supported
          [of "\<lparr> config = [''stream_name'' \<mapsto> CStr ''orders'', ''file_type'' \<mapsto> CStr ''delimited''] \<rparr>"
              "CStr ''orders''"]
        discover_streams_supported
          [of "\<lparr> config = [''stream_name'' \<mapsto> CStr ''orders'', ''file_type'' \<mapsto> CStr ''jsonl''] \<rparr>"
              "CStr ''orders''"]
  by simp

text \<open>
  C9. For every \<open>file_type\<close> value \<open>v\<close> other than \<open>delimited\<close>, \<open>jsonl\<close> and
  \<open>avro\<close>, \<open>discover_streams\<close> raises \<open>ValueError\<close> and returns no stream. The message
  is the value followed by \<open>is not a valid 'file_type'.\<close>, and for \<open>csv\<close> and \<open>tsv\<close> it
  goes on to suggest \<open>delimited\<close>. The schema entry of \<open>file_type\<close> carries no
  \<open>allowed_values\<close>, so nothing restricts the value before stream discovery.
\<close>

theorem discover_streams_unknown_file_type:
  assumes "config self ''stream_name'' = Some n"
    and "config self ''file_type'' = Some v"
    and "v \<notin> {CStr ''delimited'', CStr ''jsonl'', CStr ''avro''}"
  shows "discover_streams self =
           Inl (ValueError (py_str v @
             (if v = CStr ''csv'' \<or> v = CStr ''tsv''
              then '' is not a valid 'file_type'. Did you mean 'delimited'?''
              else '' is not a valid 'file_type'.'')))
       \<and> schema_allowed_values (config_jsonschema getenv) ''file_type'' = None"
  using assms
  by (simp add: discover_streams_def config_item_def schema_allowed_values_def
        schema_property_def config_jsonschema_def)

theorem discover_streams_unknown_file_type_witness:
  "discover_streams \<lparr> config = [''stream_name'' \<mapsto> CStr ''file'', ''file_type'' \<mapsto> CStr ''tsv''] \<rparr>
     = Inl (ValueError ''tsv is not a valid 'file_type'. Did you mean 'delimited'?'')
   \<and> discover_streams \<lparr> config = [''stream_name'' \<mapsto> CStr ''file'', ''file_type'' \<mapsto> CStr ''parquet''] \<rparr>
     = Inl (ValueError ''parquet is not a valid 'file_type'.'')"
  using discover_streams_unknown_file_type
          [of "\<lparr> config = [''stream_name'' \<mapsto> CStr ''file'', ''file_type'' \<mapsto> CStr ''tsv''] \<rparr>"
              "CStr ''file''" "CStr ''tsv''"]
        discover_streams_unknown_file_type
          [of "\<lparr> config = [''stream_name'' \<mapsto> CStr ''file'', ''file_type'' \<mapsto> CStr ''parquet''] \<rparr>"
              "CStr ''file''" "CStr ''parquet''"]
  by simp

text \<open>
  C10. Whatever the environment, the schema carries these defaults for the optional
  settings: \<open>stream_name\<close> \<open>file\<close>, \<open>file_type\<close> \<open>delimited\<close>, \<open>compression\<close>
  \<open>detect\<close>, \<open>delimiter\<close> \<open>detect\<close>, \<open>quote_character\<close> the double quote,
  \<open>jsonl_sampling_strategy\<close> \<open>first\<close>, \<open>jsonl_type_coercion_strategy\<close> \<open>any\<close> and
  \<open>caching_strategy\<close> \<open>once\<close>; the required settings are \<open>protocol\<close> and \<open>filepath\<close>
  and no others.
\<close>

theorem config_jsonschema_defaults:
  "schema_default (config_jsonschema getenv) ''stream_name'' = Some (CStr ''file'')
 \<and> schema_default (config_jsonschema getenv) ''file_type'' = Some (CStr ''delimited'')
 \<and> schema_default (config_jsonschema getenv) ''compression'' = Some (CStr ''detect'')
 \<and> schema_default (config_jsonschema getenv) ''delimiter'' = Some (CStr ''detect'')
 \<and> schema_default (config_jsonschema getenv) ''quote_character'' = Some (CStr [CHR 0x22])
 \<and> schema_default (config_jsonschema getenv) ''jsonl_sampling_strategy'' = Some (CStr ''first'')
 \<and> schema_default (config_jsonschema getenv) ''jsonl_type_coercion_strategy'' = Some (CStr ''any'')
 \<and> schema_default (config_jsonschema getenv) ''caching_strategy'' = Some (CStr ''once'')
 \<and> schema_required (config_jsonschema getenv) = [''protocol'', ''filepath'']"
  by (simp add: schema_default_def schema_property_def schema_required_def config_jsonschema_def)

section \<open>The ingestion pipeline: results\<close>

subsection \<open>Extensions and name endings\<close>

lemma extension_append:
  assumes "CHR ''.'' \<notin> set e"
  shows "extension (b @ CHR ''.'' # e) = CHR ''.'' # e"
proof -
  let ?P = "\<lambda>c. c \<noteq> CHR ''.''"
  have "takeWhile ?P (rev (b @ CHR ''.'' # e)) = takeWhile ?P (rev e @ CHR ''.'' # rev b)"
    by simp
  also have "\<dots> = takeWhile ?P (rev e)"
    by (rule takeWhile_tail) simp
  also from assms have "\<dots> = rev e"
    by auto
  finally show ?thesis by (simp add: extension_def)
qed

lemma extension_suffix: "suffix (extension fn) fn"
proof (cases "CHR ''.'' \<in> set fn")
  case False
  then show ?thesis by (simp add: extension_def)
next
  case True
  let ?P = "\<lambda>c. c \<noteq> CHR ''.''"
  from True have "dropWhile ?P (rev fn) \<noteq> []" by auto
  then obtain ys where ys: "dropWhile ?P (rev fn) = CHR ''.'' # ys"
    using hd_dropWhile[of ?P "rev fn"] by (cases "dropWhile ?P (rev fn)") auto
  have "rev fn = takeWhile ?P (rev fn) @ dropWhile ?P (rev fn)" by simp
  with ys have "rev fn = takeWhile ?P (rev fn) @ CHR ''.'' # ys" by simp
  then have "rev (rev fn) = rev (takeWhile ?P (rev fn) @ CHR ''.'' # ys)" by (rule arg_cong)
  then have "fn = rev ys @ CHR ''.'' # rev (takeWhile ?P (rev fn))" by simp
  then have "suffix (CHR ''.'' # rev (takeWhile ?P (rev fn))) fn" by (rule suffixI)
  with True show ?thesis by (simp add: extension_def)
qed

text \<open>
  A file has the extension \<open>.e\<close> exactly when its name ends in \<open>.e\<close>, for every \<open>e\<close>
  without a dot.
\<close>

lemma extension_eq_iff:
  assumes "CHR ''.'' \<notin> set e"
  shows "extension fn = CHR ''.'' # e \<longleftrightarrow> suffix (CHR ''.'' # e) fn"
proof
  assume "extension fn = CHR ''.'' # e"
  then show "suffix (CHR ''.'' # e) fn" using extension_suffix[of fn] by simp
next
  assume "suffix (CHR ''.'' # e) fn"
  then obtain b where "fn = b @ CHR ''.'' # e" by (auto simp: suffix_def)
  with assms show "extension fn = CHR ''.'' # e" by (simp add: extension_append)
qed

lemma extension_gz: "extension fn = ''.gz'' \<longleftrightarrow> suffix ''.gz'' fn"
  using extension_eq_iff[of "''gz''" fn] by simp

lemma extension_zip: "extension fn = ''.zip'' \<longleftrightarrow> suffix ''.zip'' fn"
  using extension_eq_iff[of "''zip''" fn] by simp

lemma extension_bz2: "extension fn = ''.bz2'' \<longleftrightarrow> suffix ''.bz2'' fn"
  using extension_eq_iff[of "''bz2''" fn] by simp

lemma extension_xz: "extension fn = ''.xz'' \<longleftrightarrow> suffix ''.xz'' fn"
  using extension_eq_iff[of "''xz''" fn] by simp

lemma extension_lzma: "extension fn = ''.lzma'' \<longleftrightarrow> suffix ''.lzma'' fn"
  using extension_eq_iff[of "''lzma''" fn] by simp

lemma extension_csv: "extension fn = ''.csv'' \<longleftrightarrow> suffix ''.csv'' fn"
  using extension_eq_iff[of "''csv''" fn] by simp

lemma extension_tsv: "extension fn = ''.tsv'' \<longleftrightarrow> suffix ''.tsv'' fn"
  using extension_eq_iff[of "''tsv''" fn] by simp

lemmas extension_endings =
  extension_gz extension_zip extension_bz2 extension_xz extension_lzma
  extension_csv extension_tsv

subsection \<open>Compression detection\<close>

text \<open>
  C4. Under \<open>detect\<close> the codec is a function of the filename alone, defined for every
  filename: a name ending in \<open>.gz\<close> selects gzip, \<open>.zip\<close> zip, \<open>.bz2\<close> bz2, \<open>.xz\<close>
  xz and \<open>.lzma\<close> lzma, and a name with none of these endings selects no codec, so
  that the resolver hands the raw stream on unchanged.
\<close>

theorem detect_codec_by_extension:
  "(suffix ''.gz'' fn \<longrightarrow> detect_codec fn = Some Gzip)
 \<and> (suffix ''.zip'' fn \<longrightarrow> detect_codec fn = Some Zip)
 \<and> (suffix ''.bz2'' fn \<longrightarrow> detect_codec fn = Some Bz2)
 \<and> (suffix ''.xz'' fn \<longrightarrow> detect_codec fn = Some Xz)
 \<and> (suffix ''.lzma'' fn \<longrightarrow> detect_codec fn = Some Lzma)
 \<and> (\<not> suffix ''.gz'' fn \<and> \<not> suffix ''.zip'' fn \<and> \<not> suffix ''.bz2'' fn
      \<and> \<not> suffix ''.xz'' fn \<and> \<not> suffix ''.lzma'' fn \<longrightarrow>
        detect_codec fn = None \<and> resolve on_empty Detect fn raw = Inr (fn, raw))"
proof -
  have "extension fn = ''.gz'' \<Longrightarrow> detect_codec fn = Some Gzip"
    and "extension fn = ''.zip'' \<Longrightarrow> detect_codec fn = Some Zip"
    and "extension fn = ''.bz2'' \<Longrightarrow> detect_codec fn = Some Bz2"
    and "extension fn = ''.xz'' \<Longrightarrow> detect_codec fn = Some Xz"
    and "extension fn = ''.lzma'' \<Longrightarrow> detect_codec fn = Some Lzma"
    by (simp_all add: detect_codec_def)
  moreover have "extension fn \<noteq> ''.gz'' \<Longrightarrow> extension fn \<noteq> ''.zip'' \<Longrightarrow> extension fn \<noteq> ''.bz2''
      \<Longrightarrow> extension fn \<noteq> ''.xz'' \<Longrightarrow> extension fn \<noteq> ''.lzma''
      \<Longrightarrow> detect_codec fn = None \<and> resolve on_empty Detect fn raw = Inr (fn, raw)"
    by (simp add: detect_codec_def resolve_def Let_def)
  ultimately show ?thesis
    unfolding extension_endings by blast
qed

theorem detect_codec_by_extension_witness:
  "detect_codec ''sales.csv.gz'' = Some Gzip
 \<and> detect_codec ''sales.zip'' = Some Zip
 \<and> detect_codec ''sales.jsonl.bz2'' = Some Bz2
 \<and> detect_codec ''sales.xz'' = Some Xz
 \<and> detect_codec ''sales.lzma'' = Some Lzma
 \<and> detect_codec ''sales.csv'' = None
 \<and> resolve DecompressionError Detect ''sales.csv'' (Plain ''id,name'') = Inr (''sales.csv'', Plain ''id,name'')"
  using detect_codec_by_extension [of "''sales.csv.gz''"]
        detect_codec_by_extension [of "''sales.zip''"]
        detect_codec_by_extension [of "''sales.jsonl.bz2''"]
        detect_codec_by_extension [of "''sales.xz''"]
        detect_codec_by_extension [of "''sales.lzma''"]
        detect_codec_by_extension [of "''sales.csv''" DecompressionError "Plain ''id,name''"]
  by (simp add: suffix_to_prefix)

subsection \<open>Delimiter detection\<close>

text \<open>
  C5. Under \<open>detect\<close> a file whose name ends in \<open>.csv\<close> is split on the comma and one
  whose name ends in \<open>.tsv\<close> on the tab; for a name with neither ending the resolution
  fails with \<open>UnsupportedDelimiterError\<close>. A configured delimiter other than \<open>detect\<close>
  is the separator of every file, whatever its name.
\<close>

theorem delimiter_resolution:
  "(suffix ''.csv'' fn \<longrightarrow> resolve_delimiter ''detect'' fn = Inr '','')
 \<and> (suffix ''.tsv'' fn \<longrightarrow> resolve_delimiter ''detect'' fn = Inr [CHR 0x09])
 \<and> (\<not> suffix ''.csv'' fn \<and> \<not> suffix ''.tsv'' fn \<longrightarrow>
        resolve_delimiter ''detect'' fn = Inl UnsupportedDelimiterError)
 \<and> (d \<noteq> ''detect'' \<longrightarrow> resolve_delimiter d fn = Inr d)"
  unfolding extension_endings [symmetric]
  by (simp add: resolve_delimiter_def)

theorem delimiter_resolution_witness:
  "resolve_delimiter ''detect'' ''a.csv'' = Inr '',''
 \<and> resolve_delimiter ''detect'' ''b.tsv'' = Inr [CHR 0x09]
 \<and> resolve_delimiter ''detect'' ''c.txt'' = Inl UnsupportedDelimiterError
 \<and> resolve_delimiter '';'' ''c.txt'' = Inr '';''"
  using delimiter_resolution [of "''a.csv''" "'';''"]
        delimiter_resolution [of "''b.tsv''" "'';''"]
        delimiter_resolution [of "''c.txt''" "'';''"]
  by (simp add: suffix_to_prefix)

subsection \<open>Zip archives\<close>

text \<open>
  C6. Whenever the resolver applies the zip decoder to an archive (the strategy names
  \<open>zip\<close>, or it is \<open>detect\<close> and the name ends in \<open>.zip\<close>): an archive of more than one
  member fails with \<open>AmbiguousArchiveError\<close>, and an archive of exactly one member is
  resolved as that member is under its own name, recursively.
\<close>

theorem zip_archive_resolution:
  assumes "strategy = Named Zip \<or> (strategy = Detect \<and> suffix ''.zip'' fn)"
  shows "(1 < length ms \<longrightarrow>
            resolve on_empty strategy fn (Archive ms) = Inl AmbiguousArchiveError)
       \<and> (ms = [(n, x)] \<longrightarrow>
            resolve on_empty strategy fn (Archive ms) = resolve on_empty Detect n x)"
proof -
  from assms have sel:
    "(case strategy of NoCompression \<Rightarrow> None | Named c \<Rightarrow> Some c | Detect \<Rightarrow> detect_codec fn)
       = Some Zip"
    by (auto simp: detect_codec_def extension_zip [symmetric])
  have "1 < length ms \<Longrightarrow> decompress on_empty (Some Zip) fn (Archive ms) = Inl AmbiguousArchiveError"
    by (cases ms) (auto split: list.splits)
  moreover have "decompress on_empty (Some Zip) fn (Archive [(n, x)]) = resolve on_empty Detect n x"
    by (simp add: resolve_def)
  ultimately show ?thesis
    by (simp add: resolve_def sel)
qed

theorem zip_archive_resolution_witness:
  "resolve DecompressionError Detect ''in.zip''
      (Archive [(''a.csv'', Plain ''x''), (''b.csv'', Plain ''y'')]) = Inl AmbiguousArchiveError
 \<and> resolve DecompressionError Detect ''in.zip''
      (Archive [(''a.csv.gz'', Encoded Gzip (Plain ''x''))]) = Inr (''a.csv.gz'', Plain ''x'')"
  using zip_archive_resolution
          [of Detect "''in.zip''" "[(''a.csv'', Plain ''x''), (''b.csv'', Plain ''y'')]"
              DecompressionError "''a.csv''" "Plain ''x''"]
        zip_archive_resolution
          [of Detect "''in.zip''" "[(''a.csv.gz'', Encoded Gzip (Plain ''x''))]"
              DecompressionError "''a.csv.gz''" "Encoded Gzip (Plain ''x'')"]
  by (simp add: suffix_to_prefix resolve_def detect_codec_def extension_def)

subsection \<open>No matching files\<close>

text \<open>
  C7. When no entry of the store lies under the configured path and matches the
  configured regex, the pipeline ends without a failure and has emitted no record,
  whatever reading a file would have done.
\<close>

theorem no_matching_files:
  assumes "list_entries file_regex filepath store = []"
  shows "stream_pipeline read file_regex filepath store = ([], None)"
  using assms by (simp add: stream_pipeline_def)

theorem no_matching_files_witness:
  "stream_pipeline (\<lambda>e. ([path e], Some DecompressionError)) (\<lambda>p. suffix ''.csv'' p) ''/data/''
     [\<lparr> path = ''/data/a.json'', bytes = Plain ''{}'' \<rparr>,
      \<lparr> path = ''/tmp/b.csv'', bytes = Plain ''id'' \<rparr>] = ([], None)"
  using no_matching_files
          [of "\<lambda>p. suffix ''.csv'' p" "''/data/''"
              "[\<lparr> path = ''/data/a.json'', bytes = Plain ''{}'' \<rparr>,
                \<lparr> path = ''/tmp/b.csv'', bytes = Plain ''id'' \<rparr>]"
              "\<lambda>e. ([path e], Some DecompressionError)"]
  by (simp add: list_entries_def suffix_to_prefix)

subsection \<open>Unsupported JSON Lines strategies\<close>

text \<open>
  C8. With the sampling strategy \<open>all\<close> or the type-coercion strategy \<open>blob\<close>, both
  schema inference and record construction end with the \<open>NotImplementedError\<close>-class
  signal, for every input: neither a schema nor a record is produced.
\<close>

theorem jsonl_unsupported_strategies:
  assumes "s = SampleAll \<or> c = CoerceBlob"
  shows "jsonl_schema kind s c first_record = Inl NotImplemented
       \<and> jsonl_record to_string s c line = Inl NotImplemented"
  using assms
  by (auto simp: jsonl_schema_def jsonl_record_def split: sampling.splits coercion.splits)

theorem jsonl_unsupported_strategies_witness:
  "jsonl_schema (\<lambda>v::int. TNumber) SampleAll CoerceAny [(''a'', 1)] = Inl NotImplemented
 \<and> jsonl_record (\<lambda>v::int. v) SampleAll CoerceAny [(''a'', 1)] = Inl NotImplemented
 \<and> jsonl_schema (\<lambda>v::int. TNumber) SampleFirst CoerceBlob [(''a'', 1)] = Inl NotImplemented
 \<and> jsonl_record (\<lambda>v::int. v) SampleFirst CoerceBlob [(''a'', 1)] = Inl NotImplemented"
  using jsonl_unsupported_strategies
          [of SampleAll CoerceAny "\<lambda>v::int. TNumber" "[(''a'', 1)]" "\<lambda>v::int. v" "[(''a'', 1)]"]
        jsonl_unsupported_strategies
          [of SampleFirst CoerceBlob "\<lambda>v::int. TNumber" "[(''a'', 1)]" "\<lambda>v::int. v" "[(''a'', 1)]"]
  by simp

text \<open>
  The supported selections, by contrast, always give a schema.
\<close>

lemma jsonl_supported_strategies:
  "c \<noteq> CoerceBlob \<Longrightarrow> \<exists>sch. jsonl_schema kind SampleFirst c r = Inr sch"
  by (cases c) (simp_all add: jsonl_schema_def)

end
